theory Spec2Isabelle
  imports
    Complex_Main
    "HOL-Library.Char_ord"
    "HOL-Library.List_Lexorder"
    "HOL-Library.Product_Lexorder"
    "HOL-Library.Multiset"
begin

section \<open>Project Sentinel: the anomaly detection engine\<close>

text \<open>
  A shallow embedding of \<^verbatim>\<open>scripts/anamoly_engine.py\<close>. A pandas table is a list of
  rows in the order of the table. Numbers are exact reals: the metric is a sum of two
  counts, and the statistics of a group (mean, standard deviation, quartiles) are the
  mathematical ones, without the rounding and the infinities of binary floating point.
  A statistic that pandas reports as NaN is \<open>None\<close>.
\<close>

subsection \<open>Tables\<close>

text \<open>
  A cell of a table read from a file: a number, a text, or a missing value (NaN).
\<close>

datatype cell = Num real | Str string | NaN

datatype error = ValueError string

text \<open>
  The input table: its column names, and each row as the cells by column name. A column
  of the table that a row has no entry for reads as missing.
\<close>

record frame =
  columns :: "string list"
  rows :: "(string \<times> cell) list list"

definition cell_at :: "(string \<times> cell) list \<Rightarrow> string \<Rightarrow> cell" where
  "cell_at r c = (case map_of r c of Some v \<Rightarrow> v | None \<Rightarrow> NaN)"

text \<open>
  The order in which pandas sorts the values of a column: numbers by value, texts by
  code point (Python's order on \<open>str\<close>, which on UTF-8 bytes is the order of the
  bytes), missing values last. A column read from a file holds numbers or texts; were
  both in one column, numbers go first, as in pandas' ordering of mixed group keys.
\<close>

fun cell_key :: "cell \<Rightarrow> nat \<times> real \<times> string" where
  "cell_key (Num x) = (0, x, [])"
| "cell_key (Str s) = (1, 0, s)"
| "cell_key NaN = (2, 0, [])"

subsection \<open>Python strings\<close>

fun startswith :: "string \<Rightarrow> string \<Rightarrow> bool" where
  "startswith s [] = True"
| "startswith [] (c # cs) = False"
| "startswith (d # ds) (c # cs) = (d = c \<and> startswith ds cs)"

text \<open>\<open>str_contains s sub\<close> is Python's \<^verbatim>\<open>sub in s\<close> on two strings.\<close>

fun str_contains :: "string \<Rightarrow> string \<Rightarrow> bool" where
  "str_contains [] sub = (sub = [])"
| "str_contains (d # ds) sub = (startswith (d # ds) sub \<or> str_contains ds sub)"

fun join :: "string \<Rightarrow> string list \<Rightarrow> string" where
  "join sep [] = []"
| "join sep [x] = x"
| "join sep (x # y # ys) = x @ sep @ join sep (y # ys)"

text \<open>
  Python's \<^verbatim>\<open>repr\<close> of a list of strings, for names without quotes or escapes (the
  column names below): \<^verbatim>\<open>['district', 'update_count']\<close>.
\<close>

definition repr_str :: "string \<Rightarrow> string" where
  "repr_str s = [CHR 0x27] @ s @ [CHR 0x27]"

definition repr_list :: "string list \<Rightarrow> string" where
  "repr_list xs = ''['' @ join '', '' (map repr_str xs) @ '']''"

subsection \<open>Step 1: data preparation\<close>

definition required_cols :: "string list" where
  "required_cols =
     [''state'', ''district'', ''time_period'', ''enrolment_count'', ''update_count'']"

text \<open>
  \<^verbatim>\<open>pd.to_numeric(..., errors='coerce')\<close> on one cell: a number stays, a text is read
  by pandas' parser of numbers (the parameter \<open>parse\<close>), and what cannot be read
  becomes missing.
\<close>

fun to_numeric :: "(string \<Rightarrow> real option) \<Rightarrow> cell \<Rightarrow> real option" where
  "to_numeric parse (Num x) = Some x"
| "to_numeric parse (Str s) = parse s"
| "to_numeric parse NaN = None"

record prepared_row =
  state :: cell
  district :: cell
  time_period :: cell
  enrolment_count :: real
  update_count :: real
  other :: "(string \<times> cell) list"
  total_activity :: real

text \<open>
  One row through the coercion of the two counts, \<^verbatim>\<open>dropna\<close> on them (the row is
  dropped, \<open>None\<close>, when either is missing) and the derived \<^verbatim>\<open>total_activity\<close>. The
  columns the engine does not name travel in \<open>other\<close>.
\<close>

definition prepare_row ::
  "(string \<Rightarrow> real option) \<Rightarrow> string list \<Rightarrow> (string \<times> cell) list \<Rightarrow> prepared_row option" where
  "prepare_row parse cols r =
     (case (to_numeric parse (cell_at r ''enrolment_count''),
            to_numeric parse (cell_at r ''update_count'')) of
        (Some e, Some u) \<Rightarrow>
          Some \<lparr> state = cell_at r ''state'',
                 district = cell_at r ''district'',
                 time_period = cell_at r ''time_period'',
                 enrolment_count = e,
                 update_count = u,
                 other = map (\<lambda>c. (c, cell_at r c))
                           (filter (\<lambda>c. c \<notin> set required_cols \<and> c \<noteq> ''total_activity'') cols),
                 total_activity = e + u \<rparr>
      | _ \<Rightarrow> None)"

definition prepare_data ::
  "(string \<Rightarrow> real option) \<Rightarrow> frame \<Rightarrow> error + prepared_row list" where
  "prepare_data parse df =
     (let missing = filter (\<lambda>c. c \<notin> set (columns df)) required_cols in
      if missing \<noteq> [] then Inl (ValueError (''Missing required columns: '' @ repr_list missing))
      else Inr (List.map_filter (prepare_row parse (columns df)) (rows df)))"

subsection \<open>Statistics of a column\<close>

definition series_mean :: "real list \<Rightarrow> real option" where
  "series_mean xs = (if xs = [] then None else Some (sum_list xs / real (length xs)))"

text \<open>The sample standard deviation (\<^verbatim>\<open>ddof=1\<close>): NaN on fewer than two values.\<close>

definition series_std :: "real list \<Rightarrow> real option" where
  "series_std xs =
     (if length xs \<le> 1 then None
      else case series_mean xs of
             None \<Rightarrow> None
           | Some m \<Rightarrow> Some (sqrt (sum_list (map (\<lambda>x. (x - m)\<^sup>2) xs) / real (length xs - 1))))"

text \<open>
  The quantile by linear interpolation between the two neighbours of the position
  \<open>q * (n - 1)\<close> in the sorted values, for \<open>0 \<le> q \<le> 1\<close>; NaN on no values.
\<close>

definition series_quantile :: "real \<Rightarrow> real list \<Rightarrow> real option" where
  "series_quantile q xs =
     (if xs = [] then None
      else let s = sort xs;
               pos = q * real (length xs - 1);
               lo = nat \<lfloor>pos\<rfloor>;
               hi = min (lo + 1) (length xs - 1)
           in Some (s ! lo + (s ! hi - s ! lo) * (pos - real lo)))"

subsection \<open>Step 2: z-score detection\<close>

record zscored_row = prepared_row +
  z_score :: "real option"
  z_flag :: string

text \<open>
  The score of a value: \<open>0.0\<close> when the deviation is zero or NaN, else the distance
  from the mean in deviations (NaN, \<open>None\<close>, were the mean NaN).
\<close>

definition zscore_of :: "real option \<Rightarrow> real option \<Rightarrow> real \<Rightarrow> real option" where
  "zscore_of mean std v =
     (case std of
        None \<Rightarrow> Some 0
      | Some s \<Rightarrow>
          if s = 0 then Some 0
          else (case mean of None \<Rightarrow> None | Some m \<Rightarrow> Some ((v - m) / s)))"

text \<open>
  The four masked assignments to \<^verbatim>\<open>z_flag\<close>, in the order of the source: each one
  overwrites the flag where its condition holds. A comparison with NaN is false.
\<close>

definition zflag_of :: "real option \<Rightarrow> string" where
  "zflag_of z =
     (case z of
        None \<Rightarrow> ''Normal''
      | Some s \<Rightarrow>
          (let f = ''Normal'';
               f = (if s \<ge> 3 then ''Hot_High'' else f);
               f = (if s \<ge> 2 \<and> s < 3 then ''Hot_Medium'' else f);
               f = (if s \<le> - 3 then ''Dark_High'' else f);
               f = (if s \<le> - 2 \<and> s > - 3 then ''Dark_Medium'' else f)
           in f))"

definition calculate_zscore_flags ::
  "(prepared_row \<Rightarrow> real) \<Rightarrow> prepared_row list \<Rightarrow> zscored_row list" where
  "calculate_zscore_flags metric group_df =
     (let mean = series_mean (map metric group_df);
          std = series_std (map metric group_df)
      in map (\<lambda>r. let z = zscore_of mean std (metric r)
                   in prepared_row.extend r (zscored_row.fields z (zflag_of z)))
             group_df)"

subsection \<open>Step 3: IQR detection\<close>

record flagged_row = zscored_row +
  iqr_flag :: string

text \<open>
  The flag of a value against the four fences of its group, again as four masked
  assignments in the order of the source. With a NaN quartile every comparison is false.
\<close>

definition iqrflag_of :: "real option \<Rightarrow> real option \<Rightarrow> real \<Rightarrow> string" where
  "iqrflag_of Q1 Q3 v =
     (case (Q1, Q3) of
        (Some q1, Some q3) \<Rightarrow>
          (let IQR = q3 - q1;
               lower_medium = q1 - 1.5 * IQR;
               lower_high = q1 - 3.0 * IQR;
               upper_medium = q3 + 1.5 * IQR;
               upper_high = q3 + 3.0 * IQR;
               f = ''Normal'';
               f = (if v \<ge> upper_high then ''Hot_High'' else f);
               f = (if v \<ge> upper_medium \<and> v < upper_high then ''Hot_Medium'' else f);
               f = (if v \<le> lower_high then ''Dark_High'' else f);
               f = (if v \<le> lower_medium \<and> v > lower_high then ''Dark_Medium'' else f)
           in f)
      | _ \<Rightarrow> ''Normal'')"

definition calculate_iqr_flags ::
  "(zscored_row \<Rightarrow> real) \<Rightarrow> zscored_row list \<Rightarrow> flagged_row list" where
  "calculate_iqr_flags metric group_df =
     (let Q1 = series_quantile 0.25 (map metric group_df);
          Q3 = series_quantile 0.75 (map metric group_df)
      in map (\<lambda>r. zscored_row.extend r (flagged_row.fields (iqrflag_of Q1 Q3 (metric r))))
             group_df)"

subsection \<open>Step 4: combining the flags\<close>

record verdict_row = flagged_row +
  final_flag :: string
  risk_severity :: string
  anomaly_type :: string

definition decide :: "string \<Rightarrow> string \<Rightarrow> string" where
  "decide z i =
     (if (z = ''Hot_High'' \<or> i = ''Hot_High'') \<and> str_contains z ''Hot'' \<and> str_contains i ''Hot''
      then ''HOT_SPOT_HIGH''
      else if (z = ''Dark_High'' \<or> i = ''Dark_High'') \<and> str_contains z ''Dark'' \<and> str_contains i ''Dark''
      then ''DARK_SPOT_HIGH''
      else if str_contains z ''Hot'' \<or> str_contains i ''Hot'' then ''HOT_SPOT_MEDIUM''
      else if str_contains z ''Dark'' \<or> str_contains i ''Dark'' then ''DARK_SPOT_MEDIUM''
      else ''NORMAL'')"

definition severity_of :: "string \<Rightarrow> string" where
  "severity_of x =
     (if str_contains x ''HIGH'' then ''High''
      else if str_contains x ''MEDIUM'' then ''Medium'' else ''Normal'')"

definition type_of_flag :: "string \<Rightarrow> string" where
  "type_of_flag x =
     (if str_contains x ''HOT'' then ''Hot Spot''
      else if str_contains x ''DARK'' then ''Dark Spot'' else ''Normal'')"

definition combine_row :: "flagged_row \<Rightarrow> verdict_row" where
  "combine_row r =
     (let ff = decide (z_flag r) (iqr_flag r)
      in flagged_row.extend r (verdict_row.fields ff (severity_of ff) (type_of_flag ff)))"

definition combine_flags :: "flagged_row list \<Rightarrow> verdict_row list" where
  "combine_flags df = map combine_row df"

subsection \<open>Step 5: the main pipeline\<close>

text \<open>
  \<^verbatim>\<open>df.groupby(key)\<close>: one group for each value of the key, in the sorted order of
  the values, each group with its rows in the order of the table. A row whose key is
  missing is in no group (pandas' default \<^verbatim>\<open>dropna=True\<close>).
\<close>

definition groupby :: "('a \<Rightarrow> cell) \<Rightarrow> 'a list \<Rightarrow> (cell \<times> 'a list) list" where
  "groupby key df =
     map (\<lambda>k. (k, filter (\<lambda>r. key r = k) df))
         (sort_key cell_key (remdups (filter (\<lambda>k. k \<noteq> NaN) (map key df))))"

text \<open>\<^verbatim>\<open>pd.concat\<close> raises on an empty list of tables.\<close>

definition pd_concat :: "'a list list \<Rightarrow> error + 'a list" where
  "pd_concat results =
     (if results = [] then Inl (ValueError ''No objects to concatenate'')
      else Inr (concat results))"

text \<open>
  \<^verbatim>\<open>detect_anomalies\<close> with its parameters at their defaults, as the entry point calls
  it: grouped by \<^verbatim>\<open>state\<close>, scored on \<^verbatim>\<open>total_activity\<close>.
\<close>

definition detect_anomalies :: "prepared_row list \<Rightarrow> error + verdict_row list" where
  "detect_anomalies df =
     pd_concat
       (map (\<lambda>(k, group).
               combine_flags
                 (calculate_iqr_flags total_activity
                   (calculate_zscore_flags total_activity group)))
            (groupby state df))"

subsection \<open>Step 6: the final report\<close>

text \<open>
  The recommendation of a row; \<open>fmt2\<close> is Python's format \<^verbatim>\<open>:.2f\<close> of a number, and
  the dash of the message is the three bytes of U+2013 in UTF-8.
\<close>

definition en_dash :: string where
  "en_dash = [CHR 0xE2, CHR 0x80, CHR 0x93]"

definition format_abs :: "(real \<Rightarrow> string) \<Rightarrow> real option \<Rightarrow> string" where
  "format_abs fmt2 z = (case z of None \<Rightarrow> ''nan'' | Some s \<Rightarrow> fmt2 \<bar>s\<bar>)"

definition recommendation :: "(real \<Rightarrow> string) \<Rightarrow> verdict_row \<Rightarrow> string" where
  "recommendation fmt2 row =
     (if anomaly_type row = ''Hot Spot''
      then ''Activity '' @ format_abs fmt2 (z_score row) @ '' SD above state average ''
           @ en_dash @ '' Review for abnormal spikes''
      else if anomaly_type row = ''Dark Spot''
      then ''Activity '' @ format_abs fmt2 (z_score row) @ '' SD below state average ''
           @ en_dash @ '' Check service availability''
      else '''')"

definition report_columns :: "string list" where
  "report_columns =
     [''state'', ''district'', ''time_period'', ''enrolment_count'', ''update_count'',
      ''total_activity'', ''z_score'', ''anomaly_type'', ''risk_severity'', ''final_flag'',
      ''recommendation'']"

definition float_cell :: "real option \<Rightarrow> cell" where
  "float_cell z = (case z of None \<Rightarrow> NaN | Some x \<Rightarrow> Num x)"

text \<open>The eleven selected columns of a flagged row, in the order of the selection.\<close>

definition report_row :: "(real \<Rightarrow> string) \<Rightarrow> verdict_row \<Rightarrow> (string \<times> cell) list" where
  "report_row fmt2 row =
     [(''state'', state row),
      (''district'', district row),
      (''time_period'', time_period row),
      (''enrolment_count'', Num (enrolment_count row)),
      (''update_count'', Num (update_count row)),
      (''total_activity'', Num (total_activity row)),
      (''z_score'', float_cell (z_score row)),
      (''anomaly_type'', Str (anomaly_type row)),
      (''risk_severity'', Str (risk_severity row)),
      (''final_flag'', Str (final_flag row)),
      (''recommendation'', Str (recommendation fmt2 row))]"

text \<open>
  The key of \<^verbatim>\<open>sort_values(['risk_severity', 'state', 'district'])\<close>; on several
  columns pandas sorts stably, as \<open>sort_key\<close> does.
\<close>

definition report_key ::
  "(string \<times> cell) list \<Rightarrow> (nat \<times> real \<times> string) \<times> (nat \<times> real \<times> string) \<times> (nat \<times> real \<times> string)" where
  "report_key r =
     (cell_key (cell_at r ''risk_severity''), cell_key (cell_at r ''state''),
      cell_key (cell_at r ''district''))"

definition generate_flagged_report :: "(real \<Rightarrow> string) \<Rightarrow> verdict_row list \<Rightarrow> frame" where
  "generate_flagged_report fmt2 df =
     (let flagged = filter (\<lambda>r. final_flag r \<noteq> ''NORMAL'') df
      in \<lparr> columns = report_columns,
           rows = sort_key report_key (map (report_row fmt2) flagged) \<rparr>)"

subsection \<open>Step 7: the entry point\<close>

text \<open>
  The three calls of the entry point on a table already read and renamed; an error of a
  step ends the run.
\<close>

definition run_pipeline ::
  "(string \<Rightarrow> real option) \<Rightarrow> (real \<Rightarrow> string) \<Rightarrow> frame \<Rightarrow> error + frame" where
  "run_pipeline parse fmt2 data =
     (case prepare_data parse data of
        Inl e \<Rightarrow> Inl e
      | Inr prepared \<Rightarrow>
          (case detect_anomalies prepared of
             Inl e \<Rightarrow> Inl e
           | Inr results \<Rightarrow> Inr (generate_flagged_report fmt2 results)))"

subsection \<open>Tables in the store\<close>

text \<open>
  A pandas table is a mutable object and a variable holds a reference to it. The store
  is the list of the tables allocated so far, a reference is an index into it.
\<close>

datatype table = Plain frame | Prepared "prepared_row list" | Scored "verdict_row list"

type_synonym store = "table list"

text \<open>
  A call either raises an error of the engine, or is given a reference that holds no
  table of the kind it reads (no call of the entry point does that).
\<close>

datatype fault = Raised error | NotATable

definition lookup :: "store \<Rightarrow> nat \<Rightarrow> table option" where
  "lookup h a = (if a < length h then Some (h ! a) else None)"

definition alloc :: "table \<Rightarrow> store \<Rightarrow> nat \<times> store" where
  "alloc t h = (length h, h @ [t])"

text \<open>
  The functions of the engine on references. \<^verbatim>\<open>prepare_data\<close> raises on a missing
  column before it touches anything; else \<^verbatim>\<open>df = df.copy()\<close> allocates a copy, and the
  assignments to its columns and \<^verbatim>\<open>dropna(inplace=True)\<close> change the copy in place.
  \<^verbatim>\<open>detect_anomalies\<close> returns the new table of \<^verbatim>\<open>pd.concat\<close> (the tables of the groups and
  their copies are temporaries), and \<^verbatim>\<open>generate_flagged_report\<close> the new table of the
  selection and the sort of a copy.
\<close>

definition prepare_data_st ::
  "(string \<Rightarrow> real option) \<Rightarrow> nat \<Rightarrow> store \<Rightarrow> (fault + nat) \<times> store" where
  "prepare_data_st parse a h =
     (case lookup h a of
        Some (Plain df) \<Rightarrow>
          (case prepare_data parse df of
             Inl e \<Rightarrow> (Inl (Raised e), h)
           | Inr out \<Rightarrow>
               (let (b, h1) = alloc (Plain df) h;
                    h2 = h1[b := Prepared out]
                in (Inr b, h2)))
      | _ \<Rightarrow> (Inl NotATable, h))"

definition detect_anomalies_st :: "nat \<Rightarrow> store \<Rightarrow> (fault + nat) \<times> store" where
  "detect_anomalies_st a h =
     (case lookup h a of
        Some (Prepared df) \<Rightarrow>
          (case detect_anomalies df of
             Inl e \<Rightarrow> (Inl (Raised e), h)
           | Inr out \<Rightarrow> (let (b, h1) = alloc (Scored out) h in (Inr b, h1)))
      | _ \<Rightarrow> (Inl NotATable, h))"

definition generate_flagged_report_st ::
  "(real \<Rightarrow> string) \<Rightarrow> nat \<Rightarrow> store \<Rightarrow> (fault + nat) \<times> store" where
  "generate_flagged_report_st fmt2 a h =
     (case lookup h a of
        Some (Scored df) \<Rightarrow>
          (let (b, h1) = alloc (Plain (generate_flagged_report fmt2 df)) h in (Inr b, h1))
      | _ \<Rightarrow> (Inl NotATable, h))"

definition run_pipeline_st ::
  "(string \<Rightarrow> real option) \<Rightarrow> (real \<Rightarrow> string) \<Rightarrow> nat \<Rightarrow> store \<Rightarrow> (fault + nat) \<times> store" where
  "run_pipeline_st parse fmt2 data h =
     (case prepare_data_st parse data h of
        (Inl e, h1) \<Rightarrow> (Inl e, h1)
      | (Inr prepared, h1) \<Rightarrow>
          (case detect_anomalies_st prepared h1 of
             (Inl e, h2) \<Rightarrow> (Inl e, h2)
           | (Inr results, h2) \<Rightarrow> generate_flagged_report_st fmt2 results h2))"

text \<open>What a run leaves to its caller: the error, or the table at the returned address.\<close>

definition outcome :: "store \<Rightarrow> fault + nat \<Rightarrow> fault + table option" where
  "outcome h r = (case r of Inl e \<Rightarrow> Inl e | Inr b \<Rightarrow> Inr (lookup h b))"

subsection \<open>The rules of the specification\<close>

text \<open>
  The five values of a scorer's flag, the category of a flag by its prefix, and the
  decision procedure of the Flag Reconciler as the specification words it: five rules,
  the first that matches wins.
\<close>

definition flag_values :: "string list" where
  "flag_values = [''Normal'', ''Hot_High'', ''Hot_Medium'', ''Dark_High'', ''Dark_Medium'']"

definition flag_category :: "string \<Rightarrow> string" where
  "flag_category f =
     (if startswith f ''Hot'' then ''Hot''
      else if startswith f ''Dark'' then ''Dark'' else ''Normal'')"

definition reconcile_spec :: "string \<Rightarrow> string \<Rightarrow> string" where
  "reconcile_spec z i =
     (if (z = ''Hot_High'' \<or> i = ''Hot_High'')
         \<and> flag_category z = ''Hot'' \<and> flag_category i = ''Hot''
      then ''HOT_SPOT_HIGH''
      else if (z = ''Dark_High'' \<or> i = ''Dark_High'')
         \<and> flag_category z = ''Dark'' \<and> flag_category i = ''Dark''
      then ''DARK_SPOT_HIGH''
      else if flag_category z = ''Hot'' \<or> flag_category i = ''Hot'' then ''HOT_SPOT_MEDIUM''
      else if flag_category z = ''Dark'' \<or> flag_category i = ''Dark'' then ''DARK_SPOT_MEDIUM''
      else ''NORMAL'')"


subsection \<open>Sample rows\<close>

definition sample_row :: "real \<Rightarrow> real \<Rightarrow> prepared_row" where
  "sample_row e u =
     \<lparr> state = Str ''Assam'', district = Str ''Kamrup'', time_period = Str ''2024-01'',
       enrolment_count = e, update_count = u, other = [], total_activity = e + u \<rparr>"

definition sample_raw :: "cell \<Rightarrow> cell \<Rightarrow> cell \<Rightarrow> (string \<times> cell) list" where
  "sample_raw s e u =
     [(''state'', s), (''district'', Str ''Kamrup''), (''time_period'', Str ''2024-01''),
      (''enrolment_count'', e), (''update_count'', u)]"

definition sample_flagged :: "real \<Rightarrow> string \<Rightarrow> string \<Rightarrow> flagged_row" where
  "sample_flagged z zf qf =
     zscored_row.extend (prepared_row.extend (sample_row 3 4) (zscored_row.fields (Some z) zf))
       (flagged_row.fields qf)"

section \<open>Properties\<close>

subsection \<open>The columns of a row through the stages\<close>

lemma zscored_fields:
  "z_score (prepared_row.extend r (zscored_row.fields z f)) = z"
  "z_flag (prepared_row.extend r (zscored_row.fields z f)) = f"
  "state (prepared_row.extend r (zscored_row.fields z f)) = state r"
  "district (prepared_row.extend r (zscored_row.fields z f)) = district r"
  "total_activity (prepared_row.extend r (zscored_row.fields z f)) = total_activity r"
  "prepared_row.truncate (prepared_row.extend r (zscored_row.fields z f)) = r"
  by (simp_all add: prepared_row.defs zscored_row.defs)


lemma combine_row_fields:
  "final_flag (combine_row r) = decide (z_flag r) (iqr_flag r)"
  "risk_severity (combine_row r) = severity_of (decide (z_flag r) (iqr_flag r))"
  "anomaly_type (combine_row r) = type_of_flag (decide (z_flag r) (iqr_flag r))"
  "iqr_flag (combine_row r) = iqr_flag r"
  "z_flag (combine_row r) = z_flag r"
  "z_score (combine_row r) = z_score r"
  "state (combine_row r) = state r"
  "district (combine_row r) = district r"
  "total_activity (combine_row r) = total_activity r"
  "flagged_row.truncate (combine_row r) = r"
  by (simp_all add: combine_row_def Let_def flagged_row.defs verdict_row.defs)

lemma sample_row_fields:
  "state (sample_row e u) = Str ''Assam''"
  "district (sample_row e u) = Str ''Kamrup''"
  "total_activity (sample_row e u) = e + u"
  by (simp_all add: sample_row_def)

lemma sample_flagged_fields:
  "z_flag (sample_flagged z zf qf) = zf"
  "iqr_flag (sample_flagged z zf qf) = qf"
  "z_score (sample_flagged z zf qf) = Some z"
  by (simp_all add: sample_flagged_def prepared_row.defs zscored_row.defs flagged_row.defs)

subsection \<open>The Standard-Score Scorer\<close>













subsection \<open>The Range-Outlier Scorer\<close>












subsection \<open>The Flag Reconciler\<close>

lemma decide_table:
  assumes "z \<in> set flag_values" and "i \<in> set flag_values"
  shows "decide z i = reconcile_spec z i"
  using assms unfolding flag_values_def
  apply (simp only: set_simps insert_iff empty_iff)
  apply (elim disjE)
  apply (simp_all add: decide_def reconcile_spec_def flag_category_def)
  done

text \<open>
  C4. On every pair of flags drawn from the five values, \<^verbatim>\<open>combine_flags\<close> gives each
  row the verdict of the specification's five rules, first match first; the severity and
  the type of anomaly are read off the final flag by the words HIGH, MEDIUM, HOT and
  DARK in it; and two rows with the same pair of flags get the same three columns.
\<close>

theorem combine_flags_follows_rules:
  assumes "n < length df"
    and "z_flag (df ! n) \<in> set flag_values"
    and "iqr_flag (df ! n) \<in> set flag_values"
  shows "length (combine_flags df) = length df
    \<and> final_flag (combine_flags df ! n) = reconcile_spec (z_flag (df ! n)) (iqr_flag (df ! n))
    \<and> risk_severity (combine_flags df ! n) =
        (if str_contains (final_flag (combine_flags df ! n)) ''HIGH'' then ''High''
         else if str_contains (final_flag (combine_flags df ! n)) ''MEDIUM'' then ''Medium''
         else ''Normal'')
    \<and> anomaly_type (combine_flags df ! n) =
        (if str_contains (final_flag (combine_flags df ! n)) ''HOT'' then ''Hot Spot''
         else if str_contains (final_flag (combine_flags df ! n)) ''DARK'' then ''Dark Spot''
         else ''Normal'')
    \<and> (\<forall>m < length df.
          z_flag (df ! m) = z_flag (df ! n) \<and> iqr_flag (df ! m) = iqr_flag (df ! n) \<longrightarrow>
          final_flag (combine_flags df ! m) = final_flag (combine_flags df ! n)
          \<and> risk_severity (combine_flags df ! m) = risk_severity (combine_flags df ! n)
          \<and> anomaly_type (combine_flags df ! m) = anomaly_type (combine_flags df ! n))"
proof -
  have row: "combine_flags df ! m = combine_row (df ! m)" if "m < length df" for m
    using that by (simp add: combine_flags_def)
  have "final_flag (combine_flags df ! n) = reconcile_spec (z_flag (df ! n)) (iqr_flag (df ! n))"
    using assms by (simp add: row combine_row_fields decide_table)
  moreover have "length (combine_flags df) = length df"
    by (simp add: combine_flags_def)
  ultimately show ?thesis
    using assms(1) by (simp add: row combine_row_fields severity_of_def type_of_flag_def)
qed

theorem combine_flags_follows_rules_witness:
  "final_flag (combine_flags [sample_flagged 3.5 ''Hot_High'' ''Hot_Medium''] ! 0) = ''HOT_SPOT_HIGH''
   \<and> risk_severity (combine_flags [sample_flagged 3.5 ''Hot_High'' ''Hot_Medium''] ! 0) = ''High''
   \<and> anomaly_type (combine_flags [sample_flagged 3.5 ''Hot_High'' ''Hot_Medium''] ! 0) = ''Hot Spot''"
proof -
  have h: "(0::nat) < length [sample_flagged 3.5 ''Hot_High'' ''Hot_Medium'']"
    "z_flag ([sample_flagged 3.5 ''Hot_High'' ''Hot_Medium''] ! 0) \<in> set flag_values"
    "iqr_flag ([sample_flagged 3.5 ''Hot_High'' ''Hot_Medium''] ! 0) \<in> set flag_values"
    by (simp_all add: sample_flagged_fields flag_values_def)
  show ?thesis
    using combine_flags_follows_rules [OF h]
    by (simp add: sample_flagged_fields reconcile_spec_def flag_category_def)
qed

text \<open>
  C5 as stated fails: with the z-flag Hot_Medium and the IQR flag Hot_High the first
  rule applies (one flag is Hot_High, and both contain Hot), so the verdict is not
  HOT_SPOT_MEDIUM.
\<close>

theorem hot_medium_hot_high_counterexample:
  "final_flag (combine_flags [sample_flagged 2.5 ''Hot_Medium'' ''Hot_High''] ! 0)
     \<noteq> ''HOT_SPOT_MEDIUM''"
  by (simp add: combine_flags_def combine_row_fields sample_flagged_fields decide_def)

text \<open>
  C5, amended. A row whose z-flag is Hot_Medium and whose IQR flag is Hot_High is
  reconciled to HOT_SPOT_HIGH, with severity High and type Hot Spot.
\<close>

theorem hot_medium_hot_high_is_high:
  assumes "n < length df"
    and "z_flag (df ! n) = ''Hot_Medium''"
    and "iqr_flag (df ! n) = ''Hot_High''"
  shows "final_flag (combine_flags df ! n) = ''HOT_SPOT_HIGH''
    \<and> risk_severity (combine_flags df ! n) = ''High''
    \<and> anomaly_type (combine_flags df ! n) = ''Hot Spot''"
  using assms
  by (simp add: combine_flags_def combine_row_fields decide_def severity_of_def type_of_flag_def)

theorem hot_medium_hot_high_is_high_witness:
  "final_flag (combine_flags [sample_flagged 2.5 ''Hot_Medium'' ''Hot_High''] ! 0) = ''HOT_SPOT_HIGH''"
proof -
  have h: "(0::nat) < length [sample_flagged 2.5 ''Hot_Medium'' ''Hot_High'']"
    "z_flag ([sample_flagged 2.5 ''Hot_Medium'' ''Hot_High''] ! 0) = ''Hot_Medium''"
    "iqr_flag ([sample_flagged 2.5 ''Hot_Medium'' ''Hot_High''] ! 0) = ''Hot_High''"
    by (simp_all add: sample_flagged_fields)
  show ?thesis
    using hot_medium_hot_high_is_high [OF h] by simp
qed

subsection \<open>The Data Preparer\<close>









lemma prepare_sample_raw:
  "prepare_row parse required_cols (sample_raw s (Num e) (Num u)) = Some ((sample_row e u)\<lparr>state := s\<rparr>)"
  by (simp add: prepare_row_def sample_raw_def sample_row_def cell_at_def required_cols_def)



subsection \<open>The Group Partitioner and the detection pass\<close>

lemma groupby_keys:
  "map fst (groupby key df) = sort_key cell_key (remdups (filter (\<lambda>k. k \<noteq> NaN) (map key df)))"
  by (simp add: groupby_def comp_def)

lemma groupby_keys_set:
  "set (map fst (groupby key df)) = {k \<in> key ` set df. k \<noteq> NaN}"
  by (auto simp add: groupby_keys)

lemma groupby_keys_distinct: "distinct (map fst (groupby key df))"
  by (simp add: groupby_keys)

lemma groupby_member:
  "(k, g) \<in> set (groupby key df) \<longleftrightarrow>
     k \<in> key ` set df \<and> k \<noteq> NaN \<and> g = filter (\<lambda>r. key r = k) df"
  by (auto simp add: groupby_def)

lemma groupby_group:
  assumes "(k, g) \<in> set (groupby key df)"
  shows "k \<noteq> NaN" and "g \<noteq> []" and "\<forall>r\<in>set g. key r = k" and "set g \<subseteq> set df"
  using assms by (auto simp add: groupby_member filter_empty_conv)

lemma mset_concat_filters:
  assumes "distinct ks"
  shows "mset (concat (map (\<lambda>k. filter (\<lambda>r. f r = k) xs) ks)) = mset (filter (\<lambda>r. f r \<in> set ks) xs)"
  using assms
proof (induction ks)
  case Nil
  then show ?case by simp
next
  case (Cons k ks)
  have "mset (filter (\<lambda>r. f r = k) xs) + mset (filter (\<lambda>r. f r \<in> set ks) xs)
      = mset (filter (\<lambda>r. f r \<in> set (k # ks)) xs)"
    using Cons.prems by (induction xs) auto
  with Cons show ?case by simp
qed

lemma groupby_concat:
  "mset (concat (map snd (groupby key df))) = mset (filter (\<lambda>r. key r \<noteq> NaN) df)"
proof -
  let ?ks = "map fst (groupby key df)"
  have eq: "map snd (groupby key df) = map (\<lambda>k. filter (\<lambda>r. key r = k) df) ?ks"
    by (simp add: groupby_def comp_def)
  have "mset (concat (map snd (groupby key df))) = mset (filter (\<lambda>r. key r \<in> set ?ks) df)"
    by (simp only: eq mset_concat_filters [OF groupby_keys_distinct])
  also have "filter (\<lambda>r. key r \<in> set ?ks) df = filter (\<lambda>r. key r \<noteq> NaN) df"
    by (rule filter_cong) (auto simp add: groupby_keys_set simp del: set_map)
  finally show ?thesis .
qed

lemma groupby_unique:
  assumes "r \<in> set df" and "key r \<noteq> NaN"
  shows "\<exists>!kg. kg \<in> set (groupby key df) \<and> r \<in> set (snd kg)"
proof (rule ex1I [of _ "(key r, filter (\<lambda>x. key x = key r) df)"])
  show "(key r, filter (\<lambda>x. key x = key r) df) \<in> set (groupby key df)
      \<and> r \<in> set (snd (key r, filter (\<lambda>x. key x = key r) df))"
    using assms by (simp add: groupby_member)
next
  fix kg
  assume "kg \<in> set (groupby key df) \<and> r \<in> set (snd kg)"
  then show "kg = (key r, filter (\<lambda>x. key x = key r) df)"
    by (cases kg) (auto simp add: groupby_member)
qed

lemma groupby_missing_key:
  assumes "key r = NaN" and "kg \<in> set (groupby key df)"
  shows "r \<notin> set (snd kg)"
  using assms by (cases kg) (auto simp add: groupby_member)

lemma groupby_empty: "groupby key df = [] \<longleftrightarrow> (\<forall>r\<in>set df. key r = NaN)"
proof -
  have "groupby key df = [] \<longleftrightarrow> set (map fst (groupby key df)) = {}"
    by simp
  then show ?thesis unfolding groupby_keys_set by auto
qed

text \<open>The three scorers on a group keep its records.\<close>

lemma truncate_stages:
  "prepared_row.truncate (prepared_row.extend r (zscored_row.fields z f)) = r"
  "prepared_row.truncate (zscored_row.extend a (flagged_row.fields q)) = prepared_row.truncate a"
  "prepared_row.truncate (combine_row b) = prepared_row.truncate b"
  by (simp_all add: combine_row_def Let_def prepared_row.defs zscored_row.defs flagged_row.defs verdict_row.defs)

lemma scored_group_records:
  "map prepared_row.truncate
     (combine_flags (calculate_iqr_flags total_activity (calculate_zscore_flags total_activity g))) = g"
  by (simp add: combine_flags_def calculate_iqr_flags_def calculate_zscore_flags_def Let_def
      comp_def truncate_stages)

lemma detect_anomalies_records:
  assumes "detect_anomalies df = Inr out"
  shows "map prepared_row.truncate out = concat (map snd (groupby state df))"
proof -
  from assms have "out = concat (map (\<lambda>kg. combine_flags
                 (calculate_iqr_flags total_activity
                   (calculate_zscore_flags total_activity (snd kg)))) (groupby state df))"
    by (simp add: detect_anomalies_def pd_concat_def split_def split: if_splits)
  then show ?thesis
    by (simp add: map_concat comp_def scored_group_records)
qed

lemma detect_anomalies_returns:
  "(\<exists>out. detect_anomalies df = Inr out) \<longleftrightarrow> (\<exists>r\<in>set df. state r \<noteq> NaN)"
  using groupby_empty [of state df]
  by (auto simp add: detect_anomalies_def pd_concat_def)

text \<open>
  C6 as stated fails on a cleaned record whose state is missing: the Data Preparer
  keeps it (it drops a record only for its counts), \<^verbatim>\<open>groupby\<close> puts it in no group,
  and it is absent from the output of the detection pass.
\<close>

theorem missing_state_counterexample:
  "prepare_data (\<lambda>s. None)
      \<lparr> columns = required_cols,
        rows = [sample_raw (Str ''Assam'') (Num 3) (Num 4), sample_raw NaN (Num 1) (Num 2)] \<rparr>
     = Inr [sample_row 3 4, (sample_row 1 2)\<lparr>state := NaN\<rparr>]
   \<and> map snd (groupby state [sample_row 3 4, (sample_row 1 2)\<lparr>state := NaN\<rparr>]) = [[sample_row 3 4]]
   \<and> map_sum id (map prepared_row.truncate)
        (detect_anomalies [sample_row 3 4, (sample_row 1 2)\<lparr>state := NaN\<rparr>])
     = Inr [sample_row 3 4]"
proof -
  have g: "groupby state [sample_row 3 4, (sample_row 1 2)\<lparr>state := NaN\<rparr>]
      = [(Str ''Assam'', [sample_row 3 4])]"
    by (simp add: groupby_def sample_row_def)
  have p: "prepare_data (\<lambda>s. None)
      \<lparr> columns = required_cols,
        rows = [sample_raw (Str ''Assam'') (Num 3) (Num 4), sample_raw NaN (Num 1) (Num 2)] \<rparr>
     = Inr [sample_row 3 4, (sample_row 1 2)\<lparr>state := NaN\<rparr>]"
    by (simp add: prepare_data_def List.map_filter_def prepare_sample_raw) (simp add: sample_row_def)
  have d: "map_sum id (map prepared_row.truncate)
        (detect_anomalies [sample_row 3 4, (sample_row 1 2)\<lparr>state := NaN\<rparr>])
     = Inr [sample_row 3 4]"
    by (simp add: detect_anomalies_def g pd_concat_def scored_group_records)
  show ?thesis using g p d by simp
qed

text \<open>
  C6, amended. For every cleaned dataset, grouping by state partitions the records whose
  state is present: the groups have distinct keys, none is empty, every record of a group
  has the group's key, every record with a state is in exactly one group, the groups
  together hold exactly those records (each as often as the dataset does), and so does
  the output of the detection pass, which returns whenever some record has a state. A
  record whose state is missing is in no group.
\<close>

theorem partition_by_state:
  "distinct (map fst (groupby state df))
   \<and> (\<forall>kg\<in>set (groupby state df).
        fst kg \<noteq> NaN \<and> snd kg \<noteq> [] \<and> (\<forall>r\<in>set (snd kg). state r = fst kg))
   \<and> (\<forall>r\<in>set df. state r \<noteq> NaN \<longrightarrow> (\<exists>!kg. kg \<in> set (groupby state df) \<and> r \<in> set (snd kg)))
   \<and> (\<forall>r\<in>set df. state r = NaN \<longrightarrow> (\<forall>kg\<in>set (groupby state df). r \<notin> set (snd kg)))
   \<and> mset (concat (map snd (groupby state df))) = mset (filter (\<lambda>r. state r \<noteq> NaN) df)
   \<and> ((\<exists>out. detect_anomalies df = Inr out) \<longleftrightarrow> (\<exists>r\<in>set df. state r \<noteq> NaN))
   \<and> (\<forall>out. detect_anomalies df = Inr out \<longrightarrow>
        mset (map prepared_row.truncate out) = mset (filter (\<lambda>r. state r \<noteq> NaN) df))"
proof -
  have groups: "fst kg \<noteq> NaN \<and> snd kg \<noteq> [] \<and> (\<forall>r\<in>set (snd kg). state r = fst kg)"
    if "kg \<in> set (groupby state df)" for kg
    using that groupby_group [of "fst kg" "snd kg" state df] by simp
  have out: "mset (map prepared_row.truncate out) = mset (filter (\<lambda>r. state r \<noteq> NaN) df)"
    if "detect_anomalies df = Inr out" for out
    using detect_anomalies_records [OF that] by (simp only: groupby_concat)
  show ?thesis
    using groups out groupby_keys_distinct [of state df] groupby_unique [of _ df state]
      groupby_missing_key [of state _ _ df] groupby_concat [of state df]
      detect_anomalies_returns [of df]
    by blast
qed

theorem partition_by_state_witness:
  "map fst (groupby state [sample_row 3 4, (sample_row 1 2)\<lparr>state := Str ''Bihar''\<rparr>, sample_row 5 6])
     = [Str ''Assam'', Str ''Bihar'']
   \<and> mset (concat (map snd
        (groupby state [sample_row 3 4, (sample_row 1 2)\<lparr>state := Str ''Bihar''\<rparr>, sample_row 5 6])))
     = mset [sample_row 3 4, (sample_row 1 2)\<lparr>state := Str ''Bihar''\<rparr>, sample_row 5 6]"
  using partition_by_state [of "[sample_row 3 4, (sample_row 1 2)\<lparr>state := Str ''Bihar''\<rparr>, sample_row 5 6]"]
  by (simp add: groupby_keys sample_row_def)

text \<open>
  C10. On no records at all the detection pass has no group, concatenates an empty list
  of results and raises; so does the whole run when the coercion drops every row.
\<close>

theorem empty_dataset_raises:
  "detect_anomalies [] = Inl (ValueError ''No objects to concatenate'')
   \<and> run_pipeline (\<lambda>s. None) fmt2
        \<lparr> columns = required_cols, rows = [sample_raw (Str ''Assam'') (Str ''abc'') (Num 4)] \<rparr>
      = Inl (ValueError ''No objects to concatenate'')"
proof -
  have d: "detect_anomalies [] = Inl (ValueError ''No objects to concatenate'')"
    by (simp add: detect_anomalies_def groupby_def pd_concat_def)
  have p: "prepare_data (\<lambda>s. None)
        \<lparr> columns = required_cols, rows = [sample_raw (Str ''Assam'') (Str ''abc'') (Num 4)] \<rparr>
      = Inr []"
    by (simp add: prepare_data_def List.map_filter_def prepare_row_def sample_raw_def cell_at_def)
  show ?thesis
    using d by (simp add: run_pipeline_def p)
qed

subsection \<open>A group of one record\<close>

lemma sample_prepare:
  "prepare_data parse
      \<lparr> columns = required_cols, rows = [sample_raw (Str ''Assam'') (Num 3) (Num 4)] \<rparr>
     = Inr [sample_row 3 4]"
  by (simp add: prepare_data_def List.map_filter_def prepare_row_def sample_raw_def cell_at_def
      required_cols_def sample_row_def)

lemma sample_detect:
  "detect_anomalies [sample_row 3 4] = Inr [combine_row (sample_flagged 0 ''Normal'' ''Dark_High'')]"
proof -
  have g: "groupby state [sample_row 3 4] = [(Str ''Assam'', [sample_row 3 4])]"
    by (simp add: groupby_def sample_row_def)
  have z: "calculate_zscore_flags total_activity [sample_row 3 4]
      = [prepared_row.extend (sample_row 3 4) (zscored_row.fields (Some 0) ''Normal'')]"
    by (simp add: calculate_zscore_flags_def series_std_def zscore_of_def zflag_of_def)
  have q: "calculate_iqr_flags total_activity
        [prepared_row.extend (sample_row 3 4) (zscored_row.fields (Some 0) ''Normal'')]
      = [sample_flagged 0 ''Normal'' ''Dark_High'']"
    by (simp add: calculate_iqr_flags_def series_quantile_def iqrflag_of_def zscored_fields
        sample_row_fields sample_flagged_def)
  show ?thesis
    by (simp add: detect_anomalies_def g pd_concat_def z q combine_flags_def)
qed

text \<open>
  C1, evaluated on the table of one record (state Assam, counts 3 and 4). The run raises
  nothing and the score is 0.0 with the z-flag Normal. The quartiles of the group are both
  the record's value 7, so the four fences are 7; the assignment of Hot_High applies
  (7 >= 7) and is overwritten by that of Dark_High (7 <= 7). The reconciled flag is
  DARK_SPOT_MEDIUM, not NORMAL, and the record is in the report.
\<close>

theorem single_record_group_flagged:
  "run_pipeline parse fmt2
      \<lparr> columns = required_cols, rows = [sample_raw (Str ''Assam'') (Num 3) (Num 4)] \<rparr>
     = Inr (generate_flagged_report fmt2 [combine_row (sample_flagged 0 ''Normal'' ''Dark_High'')])
   \<and> detect_anomalies [sample_row 3 4] = Inr [combine_row (sample_flagged 0 ''Normal'' ''Dark_High'')]
   \<and> z_score (combine_row (sample_flagged 0 ''Normal'' ''Dark_High'')) = Some 0
   \<and> final_flag (combine_row (sample_flagged 0 ''Normal'' ''Dark_High'')) = ''DARK_SPOT_MEDIUM''
   \<and> map (\<lambda>r. cell_at r ''final_flag'')
        (rows (generate_flagged_report fmt2 [combine_row (sample_flagged 0 ''Normal'' ''Dark_High'')]))
     = [Str ''DARK_SPOT_MEDIUM'']"
proof -
  have f: "final_flag (combine_row (sample_flagged 0 ''Normal'' ''Dark_High'')) = ''DARK_SPOT_MEDIUM''"
    by (simp add: combine_row_fields sample_flagged_fields decide_def)
  have r: "map (\<lambda>r. cell_at r ''final_flag'')
        (rows (generate_flagged_report fmt2 [combine_row (sample_flagged 0 ''Normal'' ''Dark_High'')]))
     = [Str ''DARK_SPOT_MEDIUM'']"
    by (simp add: generate_flagged_report_def f report_row_def cell_at_def)
  show ?thesis
    using f r
    by (simp add: run_pipeline_def sample_prepare sample_detect combine_row_fields
        sample_flagged_fields)
qed

subsection \<open>The Report Generator\<close>










subsection \<open>Running the pipeline twice\<close>

lemma lookup_append:
  "a < length h \<Longrightarrow> lookup (h @ ext) a = lookup h a"
  "lookup (h @ [t]) (length h) = Some t"
  by (simp_all add: lookup_def nth_append)

lemma prepare_data_st_result:
  assumes "prepare_data_st parse a h = (r, h')"
  shows "(\<exists>ext. h' = h @ ext)
    \<and> (case lookup h a of
          Some (Plain df) \<Rightarrow>
            (case prepare_data parse df of
               Inl e \<Rightarrow> r = Inl (Raised e) \<and> h' = h
             | Inr out \<Rightarrow> r = Inr (length h) \<and> h' = h @ [Prepared out])
        | _ \<Rightarrow> r = Inl NotATable \<and> h' = h)"
  using assms
  by (auto simp add: prepare_data_st_def alloc_def split: option.splits table.splits sum.splits)

lemma detect_anomalies_st_result:
  assumes "detect_anomalies_st a h = (r, h')"
  shows "(case lookup h a of
          Some (Prepared df) \<Rightarrow>
            (case detect_anomalies df of
               Inl e \<Rightarrow> r = Inl (Raised e) \<and> h' = h
             | Inr out \<Rightarrow> r = Inr (length h) \<and> h' = h @ [Scored out])
        | _ \<Rightarrow> r = Inl NotATable \<and> h' = h)"
  using assms
  by (auto simp add: detect_anomalies_st_def alloc_def split: option.splits table.splits sum.splits)

lemma generate_flagged_report_st_result:
  assumes "generate_flagged_report_st fmt2 a h = (r, h')"
  shows "(case lookup h a of
          Some (Scored df) \<Rightarrow>
            r = Inr (length h) \<and> h' = h @ [Plain (generate_flagged_report fmt2 df)]
        | _ \<Rightarrow> r = Inl NotATable \<and> h' = h)"
  using assms
  by (auto simp add: generate_flagged_report_st_def alloc_def split: option.splits table.splits)

lemma run_pipeline_st_result:
  assumes "run_pipeline_st parse fmt2 a h = (r, h')"
  shows "(\<exists>ext. h' = h @ ext)
    \<and> outcome h' r =
        (case lookup h a of
           Some (Plain df) \<Rightarrow>
             (case run_pipeline parse fmt2 df of
                Inl e \<Rightarrow> Inl (Raised e)
              | Inr report \<Rightarrow> Inr (Some (Plain report)))
         | _ \<Rightarrow> Inl NotATable)"
proof (cases "prepare_data_st parse a h")
  case (Pair r1 h1)
  note p = prepare_data_st_result [OF Pair]
  show ?thesis
  proof (cases r1)
    case (Inl e)
    with assms Pair have "r = Inl e" "h' = h1"
      by (simp_all add: run_pipeline_st_def)
    with p Inl show ?thesis
      by (auto simp add: outcome_def run_pipeline_def split: option.splits table.splits sum.splits)
  next
    case (Inr b)
    with p obtain df out where df: "lookup h a = Some (Plain df)"
      and out: "prepare_data parse df = Inr out"
      and b: "b = length h" and h1: "h1 = h @ [Prepared out]"
      by (auto split: option.splits table.splits sum.splits)
    obtain r2 h2 where d: "detect_anomalies_st b h1 = (r2, h2)"
      by (cases "detect_anomalies_st b h1")
    have lb: "lookup h1 b = Some (Prepared out)"
      by (simp add: b h1 lookup_append)
    note d' = detect_anomalies_st_result [OF d, unfolded lb, simplified]
    show ?thesis
    proof (cases "detect_anomalies out")
      case (Inl e)
      with d' have "r2 = Inl (Raised e)" "h2 = h1" by simp_all
      with assms Pair Inr d have "r = Inl (Raised e)" "h' = h1"
        by (simp_all add: run_pipeline_st_def)
      then show ?thesis
        using df out Inl h1 by (simp add: outcome_def run_pipeline_def)
    next
      case (Inr res)
      with d' have r2: "r2 = Inr (length h1)" and h2: "h2 = h1 @ [Scored res]" by simp_all
      have lc: "lookup h2 (length h1) = Some (Scored res)"
        by (simp add: h2 lookup_append)
      from assms Pair \<open>r1 = Inr b\<close> d r2
      have g: "generate_flagged_report_st fmt2 (length h1) h2 = (r, h')"
        by (simp add: run_pipeline_st_def)
      note g' = generate_flagged_report_st_result [OF g, unfolded lc, simplified]
      then show ?thesis
        using df out Inr h1 h2 by (simp add: outcome_def run_pipeline_def lookup_def nth_append)
    qed
  qed
qed

text \<open>
  C9. Run twice on the same reference, one run after the other in the same store, the
  pipeline leaves the caller's table as it was and ends both times in the same way: with
  the same error, or with equal reports. What a run leaves is the value of the function
  \<open>run_pipeline\<close> on the table the reference holds: the output depends on the input
  dataset alone.
\<close>

theorem pipeline_twice:
  assumes "run_pipeline_st parse fmt2 a h = (r1, h1)"
    and "run_pipeline_st parse fmt2 a h1 = (r2, h2)"
  shows "lookup h1 a = lookup h a
    \<and> outcome h2 r2 = outcome h1 r1
    \<and> (\<forall>df. lookup h a = Some (Plain df) \<longrightarrow>
          outcome h1 r1 =
            (case run_pipeline parse fmt2 df of
               Inl e \<Rightarrow> Inl (Raised e)
             | Inr report \<Rightarrow> Inr (Some (Plain report))))"
proof -
  note first = run_pipeline_st_result [OF assms(1)]
  note second = run_pipeline_st_result [OF assms(2)]
  from first obtain ext where ext: "h1 = h @ ext" by blast
  have same: "lookup h1 a = lookup h a"
  proof (cases "a < length h")
    case True
    then show ?thesis by (simp add: ext lookup_append)
  next
    case False
    then have none: "lookup h a = None" by (simp add: lookup_def)
    with prepare_data_st_result [of parse a h] have "prepare_data_st parse a h = (Inl NotATable, h)"
      by (cases "prepare_data_st parse a h") simp
    with assms(1) have "h1 = h" by (simp add: run_pipeline_st_def)
    then show ?thesis by simp
  qed
  with first second show ?thesis by simp
qed

theorem pipeline_twice_witness:
  "run_pipeline_st (\<lambda>s. None) (\<lambda>x. ''0.00'') 0
      [Plain \<lparr> columns = required_cols, rows = [sample_raw (Str ''Assam'') (Num 3) (Num 4)] \<rparr>]
    = (Inr 3,
       [Plain \<lparr> columns = required_cols, rows = [sample_raw (Str ''Assam'') (Num 3) (Num 4)] \<rparr>,
        Prepared [sample_row 3 4],
        Scored [combine_row (sample_flagged 0 ''Normal'' ''Dark_High'')],
        Plain (generate_flagged_report (\<lambda>x. ''0.00'')
               [combine_row (sample_flagged 0 ''Normal'' ''Dark_High'')])])
   \<and> outcome
        (snd (run_pipeline_st (\<lambda>s. None) (\<lambda>x. ''0.00'') 0
          [Plain \<lparr> columns = required_cols, rows = [sample_raw (Str ''Assam'') (Num 3) (Num 4)] \<rparr>,
           Prepared [sample_row 3 4],
           Scored [combine_row (sample_flagged 0 ''Normal'' ''Dark_High'')],
           Plain (generate_flagged_report (\<lambda>x. ''0.00'')
                  [combine_row (sample_flagged 0 ''Normal'' ''Dark_High'')])]))
        (fst (run_pipeline_st (\<lambda>s. None) (\<lambda>x. ''0.00'') 0
          [Plain \<lparr> columns = required_cols, rows = [sample_raw (Str ''Assam'') (Num 3) (Num 4)] \<rparr>,
           Prepared [sample_row 3 4],
           Scored [combine_row (sample_flagged 0 ''Normal'' ''Dark_High'')],
           Plain (generate_flagged_report (\<lambda>x. ''0.00'')
                  [combine_row (sample_flagged 0 ''Normal'' ''Dark_High'')])]))
     = Inr (Some (Plain (generate_flagged_report (\<lambda>x. ''0.00'')
               [combine_row (sample_flagged 0 ''Normal'' ''Dark_High'')])))"
proof -
  let ?F = "\<lparr> columns = required_cols, rows = [sample_raw (Str ''Assam'') (Num 3) (Num 4)] \<rparr>"
  let ?R = "generate_flagged_report (\<lambda>x. ''0.00'')
               [combine_row (sample_flagged 0 ''Normal'' ''Dark_High'')]"
  let ?h1 = "[Plain ?F, Prepared [sample_row 3 4],
        Scored [combine_row (sample_flagged 0 ''Normal'' ''Dark_High'')], Plain ?R]"
  have one: "run_pipeline_st (\<lambda>s. None) (\<lambda>x. ''0.00'') 0 [Plain ?F] = (Inr 3, ?h1)"
    by (simp add: run_pipeline_st_def prepare_data_st_def detect_anomalies_st_def
        generate_flagged_report_st_def lookup_def alloc_def sample_prepare sample_detect)
  have two: "run_pipeline_st (\<lambda>s. None) (\<lambda>x. ''0.00'') 0 ?h1
      = (fst (run_pipeline_st (\<lambda>s. None) (\<lambda>x. ''0.00'') 0 ?h1),
         snd (run_pipeline_st (\<lambda>s. None) (\<lambda>x. ''0.00'') 0 ?h1))"
    by simp
  have out: "outcome ?h1 (Inr 3) = Inr (Some (Plain ?R))"
    by (simp add: outcome_def lookup_def)
  from pipeline_twice [OF one two] one out show ?thesis
    by (simp only: simp_thms)
qed

end
